theory Spec2Isabelle
  imports Complex_Main
begin

section \<open>JavaScript numbers\<close>

text \<open>
  A JavaScript number is a finite double, one of the two infinities, or NaN. Finite
  doubles are modelled as reals: rounding and overflow are left out, so a finite result
  is the exact real result. What is kept is where the non-finite values come from and how
  they spread: a division by zero gives an infinity or NaN, \<open>Math.sin\<close> of an infinity
  is NaN, NaN absorbs every operation and fails every comparison. Zero carries no sign;
  a zero divisor is taken as \<open>+0\<close>. The range of doubles comes in with the second
  evaluation of the branch functions further down.
\<close>

datatype jsnum = Fin real | PInf | NInf | NaN

fun isFinite :: "jsnum \<Rightarrow> bool" where
  "isFinite (Fin a) = True"
| "isFinite PInf = False"
| "isFinite NInf = False"
| "isFinite NaN = False"

fun js_neg :: "jsnum \<Rightarrow> jsnum" where
  "js_neg (Fin a) = Fin (- a)"
| "js_neg PInf = NInf"
| "js_neg NInf = PInf"
| "js_neg NaN = NaN"

fun js_add :: "jsnum \<Rightarrow> jsnum \<Rightarrow> jsnum" where
  "js_add (Fin a) (Fin b) = Fin (a + b)"
| "js_add NaN y = NaN"
| "js_add x NaN = NaN"
| "js_add PInf NInf = NaN"
| "js_add NInf PInf = NaN"
| "js_add PInf y = PInf"
| "js_add x PInf = PInf"
| "js_add NInf y = NInf"
| "js_add x NInf = NInf"

definition js_sub :: "jsnum \<Rightarrow> jsnum \<Rightarrow> jsnum" where
  "js_sub x y = js_add x (js_neg y)"

text \<open>The infinity with the sign of a nonzero real, and NaN for zero times infinity.\<close>

definition inf_of_sign :: "real \<Rightarrow> jsnum" where
  "inf_of_sign a = (if a = 0 then NaN else if 0 < a then PInf else NInf)"

fun js_mul :: "jsnum \<Rightarrow> jsnum \<Rightarrow> jsnum" where
  "js_mul (Fin a) (Fin b) = Fin (a * b)"
| "js_mul NaN y = NaN"
| "js_mul x NaN = NaN"
| "js_mul (Fin a) PInf = inf_of_sign a"
| "js_mul (Fin a) NInf = inf_of_sign (- a)"
| "js_mul PInf (Fin b) = inf_of_sign b"
| "js_mul NInf (Fin b) = inf_of_sign (- b)"
| "js_mul PInf PInf = PInf"
| "js_mul PInf NInf = NInf"
| "js_mul NInf PInf = NInf"
| "js_mul NInf NInf = PInf"

fun js_div :: "jsnum \<Rightarrow> jsnum \<Rightarrow> jsnum" where
  "js_div (Fin a) (Fin b) = (if b = 0 then inf_of_sign a else Fin (a / b))"
| "js_div NaN y = NaN"
| "js_div x NaN = NaN"
| "js_div (Fin a) PInf = Fin 0"
| "js_div (Fin a) NInf = Fin 0"
| "js_div PInf (Fin b) = (if 0 \<le> b then PInf else NInf)"
| "js_div NInf (Fin b) = (if 0 \<le> b then NInf else PInf)"
| "js_div PInf y = NaN"
| "js_div NInf y = NaN"

fun js_sin :: "jsnum \<Rightarrow> jsnum" where
  "js_sin (Fin a) = Fin (sin a)"
| "js_sin PInf = NaN"
| "js_sin NInf = NaN"
| "js_sin NaN = NaN"

fun js_max :: "jsnum \<Rightarrow> jsnum \<Rightarrow> jsnum" where
  "js_max (Fin a) (Fin b) = Fin (max a b)"
| "js_max NaN y = NaN"
| "js_max x NaN = NaN"
| "js_max PInf y = PInf"
| "js_max x PInf = PInf"
| "js_max NInf y = y"
| "js_max x NInf = x"

fun js_le :: "jsnum \<Rightarrow> jsnum \<Rightarrow> bool" where
  "js_le (Fin a) (Fin b) = (a \<le> b)"
| "js_le NaN y = False"
| "js_le x NaN = False"
| "js_le NInf y = True"
| "js_le x PInf = True"
| "js_le PInf y = False"
| "js_le x NInf = False"

definition js_ge :: "jsnum \<Rightarrow> jsnum \<Rightarrow> bool" where
  "js_ge x y = js_le y x"

section \<open>The dual-universe canvas: signal model\<close>

text \<open>
  The \<open>useState\<close> values of \<open>DualUniverseCanvas\<close>. Every one starts at a finite
  literal and is only ever replaced by the \<open>parseFloat\<close> of a range input's value (or,
  for \<open>time\<close>, by \<open>t + dt * speed\<close> and \<open>0\<close>), so the fields are finite numbers.
\<close>

record du_state =
  playing :: bool
  time :: real
  xMax :: real
  splitX :: real
  baseAmp :: real
  baseFreq :: real
  basePhase :: real
  u1Slope :: real
  u1Amp :: real
  u1Freq :: real
  u1Phase :: real
  u2Slope :: real
  u2Amp :: real
  u2Freq :: real
  u2Phase :: real
  speed :: real
  trace :: real

definition initial_state :: du_state where
  "initial_state = \<lparr> playing = True, time = 0, xMax = 10, splitX = 4,
     baseAmp = 1, baseFreq = 115 / 100, basePhase = 0,
     u1Slope = 35 / 100, u1Amp = 9 / 10, u1Freq = 95 / 100, u1Phase = 4 / 10,
     u2Slope = - (3 / 10), u2Amp = 75 / 100, u2Freq = 122 / 100, u2Phase = - (2 / 10),
     speed = 1, trace = 10 \<rparr>"

text \<open>\<open>baseAmp * Math.sin(2 * Math.PI * baseFreq * (x / xMax) + basePhase + 0.6 * t)\<close>\<close>

definition baseY :: "du_state \<Rightarrow> jsnum \<Rightarrow> jsnum \<Rightarrow> jsnum" where
  "baseY p x t =
     js_mul (Fin (baseAmp p))
       (js_sin
         (js_add
           (js_add
             (js_mul (js_mul (js_mul (Fin 2) (Fin pi)) (Fin (baseFreq p)))
                     (js_div x (Fin (xMax p))))
             (Fin (basePhase p)))
           (js_mul (Fin (6 / 10)) t)))"

definition junctionY :: "du_state \<Rightarrow> jsnum \<Rightarrow> jsnum" where
  "junctionY p t = baseY p (Fin (splitX p)) t"

definition u1Y :: "du_state \<Rightarrow> jsnum \<Rightarrow> jsnum \<Rightarrow> jsnum" where
  "u1Y p x t =
     (let dx = js_max (Fin 0) (js_sub x (Fin (splitX p)))
      in js_add
           (js_add (junctionY p t) (js_mul (Fin (u1Slope p)) dx))
           (js_mul (Fin (u1Amp p))
             (js_sin
               (js_add
                 (js_add
                   (js_mul (js_mul (js_mul (Fin 2) (Fin pi)) (Fin (u1Freq p)))
                           (js_div dx
                              (js_max (Fin (1 / 1000000))
                                      (js_sub (Fin (xMax p)) (Fin (splitX p))))))
                   (Fin (u1Phase p)))
                 (js_mul (Fin (7 / 10)) t)))))"

definition u2Y :: "du_state \<Rightarrow> jsnum \<Rightarrow> jsnum \<Rightarrow> jsnum" where
  "u2Y p x t =
     (let dx = js_max (Fin 0) (js_sub x (Fin (splitX p)))
      in js_add
           (js_add (junctionY p t) (js_mul (Fin (u2Slope p)) dx))
           (js_mul (Fin (u2Amp p))
             (js_sin
               (js_add
                 (js_add
                   (js_mul (js_mul (js_mul (Fin 2) (Fin pi)) (Fin (u2Freq p)))
                           (js_div dx
                              (js_max (Fin (1 / 1000000))
                                      (js_sub (Fin (xMax p)) (Fin (splitX p))))))
                   (Fin (u2Phase p)))
                 (js_mul (Fin (65 / 100)) t)))))"

text \<open>
  The three samplers \<open>render\<close> hands to \<open>drawCurve\<close>:
  \<open>(x) => (x <= splitX ? baseY(x, t) : Number.NaN)\<close> and
  \<open>(x) => (x >= splitX ? u1Y(x, t) : Number.NaN)\<close>, likewise for \<open>u2Y\<close>.
\<close>

definition base_sampler :: "du_state \<Rightarrow> jsnum \<Rightarrow> jsnum \<Rightarrow> jsnum" where
  "base_sampler p t x = (if js_le x (Fin (splitX p)) then baseY p x t else NaN)"

definition u1_sampler :: "du_state \<Rightarrow> jsnum \<Rightarrow> jsnum \<Rightarrow> jsnum" where
  "u1_sampler p t x = (if js_ge x (Fin (splitX p)) then u1Y p x t else NaN)"

definition u2_sampler :: "du_state \<Rightarrow> jsnum \<Rightarrow> jsnum \<Rightarrow> jsnum" where
  "u2_sampler p t x = (if js_ge x (Fin (splitX p)) then u2Y p x t else NaN)"

section \<open>The branch functions on doubles\<close>



















section \<open>The dual-universe canvas: renderer\<close>

text \<open>
  \<open>mapFactory(cssW, cssH, padding)\<close>: the two coordinate maps it returns, with
  \<open>width = Math.max(1, right - left)\<close>, \<open>height = Math.max(1, bottom - top)\<close> and
  \<open>yMax = 2.2\<close>.
\<close>

definition x2px :: "du_state \<Rightarrow> real \<Rightarrow> real \<Rightarrow> jsnum \<Rightarrow> jsnum" where
  "x2px p cssW padding x =
     (let left = padding; right = cssW - padding; width = max 1 (right - left)
      in js_add (Fin left) (js_mul (js_div x (Fin (xMax p))) (Fin width)))"

definition y2px :: "real \<Rightarrow> real \<Rightarrow> jsnum \<Rightarrow> jsnum" where
  "y2px cssH padding y =
     (let top = padding; bottom = cssH - padding; height = max 1 (bottom - top);
          yMax = 22 / 10
      in js_add (Fin top)
           (js_mul (js_sub (Fin 1) (js_div (js_add y (Fin yMax)) (js_mul (Fin 2) (Fin yMax))))
                   (Fin height)))"

text \<open>
  The path \<open>drawCurve\<close> builds between \<open>ctx.beginPath()\<close> and \<open>ctx.stroke()\<close> is the
  list of its \<open>moveTo\<close> and \<open>lineTo\<close> calls, in order.
\<close>

datatype path_cmd = MoveTo jsnum jsnum | LineTo jsnum jsnum

text \<open>
  One pass through the body of the \<open>for\<close> loop of \<open>drawCurve\<close>, on the variable
  \<open>penDown\<close> and the path so far.
\<close>

record pen =
  penDown :: bool
  path :: "path_cmd list"

definition curve_body ::
  "(jsnum \<Rightarrow> jsnum) \<Rightarrow> (jsnum \<Rightarrow> jsnum) \<Rightarrow> (jsnum \<Rightarrow> jsnum) \<Rightarrow> real \<Rightarrow> pen \<Rightarrow> pen" where
  "curve_body sampler X Y x st =
     (let y = sampler (Fin x)
      in if \<not> isFinite y then st\<lparr>penDown := False\<rparr>
         else let px = X (Fin x); py = Y y
              in if \<not> penDown st then st\<lparr>path := path st @ [MoveTo px py], penDown := True\<rparr>
                 else st\<lparr>path := path st @ [LineTo px py]\<rparr>)"

text \<open>
  \<open>for (let x = fromX; x <= Math.min(xMax, toX); x += step)\<close>. With \<open>step \<le> 0\<close> the
  loop never leaves once entered, so it is a partial function: \<open>None\<close> is not returning.
\<close>

partial_function (option) curve_loop ::
  "(jsnum \<Rightarrow> jsnum) \<Rightarrow> (jsnum \<Rightarrow> jsnum) \<Rightarrow> (jsnum \<Rightarrow> jsnum) \<Rightarrow> real \<Rightarrow> real \<Rightarrow> real
     \<Rightarrow> pen \<Rightarrow> pen option" where
  "curve_loop sampler X Y step hi x st =
     (if x \<le> hi then curve_loop sampler X Y step hi (x + step) (curve_body sampler X Y x st)
      else Some st)"

definition drawCurve ::
  "du_state \<Rightarrow> (jsnum \<Rightarrow> jsnum) \<Rightarrow> (jsnum \<Rightarrow> jsnum) \<Rightarrow> (jsnum \<Rightarrow> jsnum) \<Rightarrow> real \<Rightarrow> real
     \<Rightarrow> path_cmd list option" where
  "drawCurve p X Y sampler fromX toX =
     map_option path
       (curve_loop sampler X Y (xMax p / 1000) (min (xMax p) toX) fromX
          \<lparr>penDown = False, path = []\<rparr>)"

text \<open>
  The three curves of one \<open>render\<close> call on a canvas of CSS size \<open>cssW\<close> by \<open>cssH\<close>,
  at \<open>t = time\<close> and with \<open>mapFactory(cssW, cssH, 56)\<close>.
\<close>

definition render_curves ::
  "du_state \<Rightarrow> real \<Rightarrow> real
     \<Rightarrow> path_cmd list option \<times> path_cmd list option \<times> path_cmd list option" where
  "render_curves p cssW cssH =
     (let X = x2px p cssW 56; Y = y2px cssH 56; t = Fin (time p);
          toX = min (xMax p) (splitX p + trace p)
      in (drawCurve p X Y (base_sampler p t) 0 (splitX p),
          drawCurve p X Y (u1_sampler p t) (splitX p) toX,
          drawCurve p X Y (u2_sampler p t) (splitX p) toX))"

text \<open>
  The sample points the loop visits when \<open>step\<close> is positive, and the path the loop body
  builds over a list of sample points, starting with the pen up and an empty path.
\<close>

function sample_xs :: "real \<Rightarrow> real \<Rightarrow> real \<Rightarrow> real list" where
  "sample_xs step hi x = (if 0 < step \<and> x \<le> hi then x # sample_xs step hi (x + step) else [])"
  by pat_completeness auto
termination
proof (relation "measure (\<lambda>(step, hi, x). nat (\<lfloor>(hi - x) / step\<rfloor> + 1))")
  show "wf (measure (\<lambda>(step, hi, x). nat (\<lfloor>(hi - x) / step\<rfloor> + 1)))"
    by simp
next
  fix step hi x :: real
  assume a: "0 < step \<and> x \<le> hi"
  then have "(hi - (x + step)) / step = (hi - x) / step - 1"
    by (simp add: field_simps)
  moreover from a have "0 \<le> \<lfloor>(hi - x) / step\<rfloor>"
    by simp
  ultimately show "((step, hi, x + step), (step, hi, x))
      \<in> measure (\<lambda>(step, hi, x). nat (\<lfloor>(hi - x) / step\<rfloor> + 1))"
    by simp
qed

definition strokes ::
  "(jsnum \<Rightarrow> jsnum) \<Rightarrow> (jsnum \<Rightarrow> jsnum) \<Rightarrow> (jsnum \<Rightarrow> jsnum) \<Rightarrow> real list \<Rightarrow> path_cmd list" where
  "strokes sampler X Y xs =
     path (foldl (\<lambda>st x. curve_body sampler X Y x st) \<lparr>penDown = False, path = []\<rparr> xs)"

text \<open>
  The start of \<open>render\<close>: the canvas element with its CSS size, the device pixel ratio
  of the window, its backing-store size and the current transform of its 2D context, a
  matrix \<open>(a, b, c, d, e, f)\<close>. \<open>setTransform\<close> replaces the matrix and \<open>scale\<close>
  multiplies it by a scaling, as the Canvas 2D interface defines them.
\<close>

record canvas =
  clientWidth :: int
  clientHeight :: int
  devicePixelRatio :: real
  width :: int
  height :: int
  transform :: "real \<times> real \<times> real \<times> real \<times> real \<times> real"

definition ctx_setTransform ::
  "real \<Rightarrow> real \<Rightarrow> real \<Rightarrow> real \<Rightarrow> real \<Rightarrow> real \<Rightarrow> canvas \<Rightarrow> canvas" where
  "ctx_setTransform a b c d e f cv = cv\<lparr>transform := (a, b, c, d, e, f)\<rparr>"

definition ctx_scale :: "real \<Rightarrow> real \<Rightarrow> canvas \<Rightarrow> canvas" where
  "ctx_scale sx sy cv =
     (case transform cv of
        (a, b, c, d, e, f) \<Rightarrow> cv\<lparr>transform := (a * sx, b * sx, c * sy, d * sy, e, f)\<rparr>)"

text \<open>
  \<open>render\<close> from \<open>cssW\<close> to \<open>ctx.scale(dpr, dpr)\<close>, on a canvas that is there and
  has a 2D context. \<open>window.devicePixelRatio || 1\<close> is \<open>1\<close> when the ratio is zero.
\<close>

definition frame_setup :: "canvas \<Rightarrow> canvas" where
  "frame_setup cv =
     (let cssW = max 1 (clientWidth cv);
          cssH = max 1 (clientHeight cv);
          dpr = (if devicePixelRatio cv = 0 then 1 else devicePixelRatio cv);
          cv1 = (if width cv \<noteq> \<lfloor>real_of_int cssW * dpr\<rfloor> \<or> height cv \<noteq> \<lfloor>real_of_int cssH * dpr\<rfloor>
                 then cv\<lparr>width := \<lfloor>real_of_int cssW * dpr\<rfloor>, height := \<lfloor>real_of_int cssH * dpr\<rfloor>\<rparr>
                 else cv)
      in ctx_scale dpr dpr (ctx_setTransform 1 0 0 1 0 0 cv1))"

text \<open>
  The Play/Pause and Reset buttons, and the time update of one \<open>tick\<close> called at
  \<open>now\<close> when the tick before was at \<open>prev\<close> (the variable \<open>last\<close>).
\<close>

definition onPlayPause :: "du_state \<Rightarrow> du_state" where
  "onPlayPause p = p\<lparr>playing := \<not> playing p\<rparr>"

definition onResetTime :: "du_state \<Rightarrow> du_state" where
  "onResetTime p = p\<lparr>time := 0\<rparr>"

definition tick_time :: "real \<Rightarrow> real \<Rightarrow> du_state \<Rightarrow> du_state" where
  "tick_time now prev p =
     (let dt = min (5 / 100) ((now - prev) / 1000)
      in if playing p then p\<lparr>time := time p + dt * speed p\<rparr> else p)"

section \<open>The oscilloscope of app.js\<close>

text \<open>
  The variables of the script: \<open>running\<close>, \<open>glow\<close>, \<open>t\<close>, \<open>dt\<close>, \<open>f1\<close>, \<open>f2\<close>,
  \<open>phase\<close>, \<open>noise\<close>, \<open>jam\<close> and \<open>lastTick\<close>. The one-letter names carry the prefix
  \<open>scope_\<close> here.
\<close>

record scope_vars =
  running :: bool
  glow :: bool
  scope_t :: real
  scope_dt :: real
  scope_f1 :: real
  scope_f2 :: real
  phase :: real
  noise :: real
  jam :: bool
  lastTick :: real

definition initial_vars :: scope_vars where
  "initial_vars = \<lparr> running = False, glow = False, scope_t = 0, scope_dt = 16 / 1000,
     scope_f1 = 12 / 10, scope_f2 = 23 / 10, phase = pi / 3, noise = 0, jam = False,
     lastTick = 0 \<rparr>"

text \<open>
  What the handlers act on besides the variables: the frame callbacks of \<open>drawFrame\<close>
  that \<open>requestAnimationFrame\<close> holds and has not yet run, and the lines of the console
  element, newest first (the time stamp of a line is left out). The initial world is the
  one \<open>boot\<close> leaves: the controls bound, nothing of \<open>drawFrame\<close> requested.
\<close>

record world =
  vars :: scope_vars
  pending :: nat
  console :: "string list"

definition initial_world :: world where
  "initial_world = \<lparr> vars = initial_vars, pending = 0, console = [''controls.bound()''] \<rparr>"

definition log_line :: "string \<Rightarrow> world \<Rightarrow> world" where
  "log_line line w = w\<lparr>console := line # console w\<rparr>"

definition requestAnimationFrame :: "world \<Rightarrow> world" where
  "requestAnimationFrame w = w\<lparr>pending := Suc (pending w)\<rparr>"

text \<open>\<open>rnd(a, b)\<close>, with \<open>r\<close> the value \<open>Math.random()\<close> returns.\<close>

definition rnd :: "real \<Rightarrow> real \<Rightarrow> real \<Rightarrow> real" where
  "rnd a b r = a + r * (b - a)"

definition startBtn :: "world \<Rightarrow> world" where
  "startBtn w =
     (if \<not> running (vars w)
      then log_line ''scope.start()''
             (requestAnimationFrame (w\<lparr>vars := (vars w)\<lparr>running := True\<rparr>\<rparr>))
      else w)"

definition pauseBtn :: "world \<Rightarrow> world" where
  "pauseBtn w = log_line ''scope.pause()'' (w\<lparr>vars := (vars w)\<lparr>running := False\<rparr>\<rparr>)"

definition jamBtn :: "real \<Rightarrow> real \<Rightarrow> real \<Rightarrow> world \<Rightarrow> world" where
  "jamBtn r1 r2 r3 w =
     (let j = \<not> jam (vars w)
      in log_line (if j then ''scope.jam=true'' else ''scope.jam=false'')
           (w\<lparr>vars := (vars w)\<lparr>
              jam := j,
              noise := (if j then 8 / 10 else 0),
              scope_f1 := (if j then rnd (8 / 10) (22 / 10) r1 else 12 / 10),
              scope_f2 := (if j then rnd (16 / 10) (35 / 10) r2 else 23 / 10),
              phase := (if j then rnd 0 pi r3 else pi / 3)\<rparr>\<rparr>))"

definition calBtn :: "world \<Rightarrow> world" where
  "calBtn w =
     log_line ''scope.calibrate()''
       (w\<lparr>vars := (vars w)\<lparr>scope_f1 := 12 / 10, scope_f2 := 23 / 10, phase := pi / 3,
                               noise := 0, jam := False\<rparr>\<rparr>)"

definition glowBtn :: "world \<Rightarrow> world" where
  "glowBtn w =
     (let g = \<not> glow (vars w)
      in log_line (if g then ''scope.glow=true'' else ''scope.glow=false'')
           (w\<lparr>vars := (vars w)\<lparr>glow := g\<rparr>\<rparr>))"

definition resetBtn :: "world \<Rightarrow> world" where
  "resetBtn w = log_line ''scope.reset()'' (w\<lparr>vars := (vars w)\<lparr>scope_t := 0\<rparr>\<rparr>)"

text \<open>
  \<open>bindControls\<close> assigns the same handlers again and logs. The console line of the
  safe start is cut after its name.
\<close>

definition bindControls :: "world \<Rightarrow> world" where
  "bindControls w = log_line ''controls.bound()'' w"

definition safeStartBtn :: "world \<Rightarrow> world" where
  "safeStartBtn w =
     (let w1 = bindControls w
      in log_line ''scope.safeStart()''
           (requestAnimationFrame (w1\<lparr>vars := (vars w1)\<lparr>running := True\<rparr>\<rparr>)))"

text \<open>
  The body of \<open>drawFrame(ts)\<close>, the drawing left out: the early return when not running,
  the diagnostic line (its number left out), \<open>t += dt\<close> and the request for the next
  frame.
\<close>

definition drawFrame :: "real \<Rightarrow> world \<Rightarrow> world" where
  "drawFrame ts w =
     (if \<not> running (vars w) then w\<lparr>vars := (vars w)\<lparr>lastTick := 0\<rparr>\<rparr>
      else let w1 = (if ts \<noteq> 0 \<and> ts - lastTick (vars w) > 250
                     then log_line ''RAF: ticking'' (w\<lparr>vars := (vars w)\<lparr>lastTick := ts\<rparr>\<rparr>)
                     else w);
               w2 = w1\<lparr>vars := (vars w1)\<lparr>scope_t := scope_t (vars w1) + scope_dt (vars w1)\<rparr>\<rparr>
           in requestAnimationFrame w2)"

text \<open>The host runs one of the pending callbacks of \<open>drawFrame\<close>, if there is one.\<close>

definition run_frame :: "real \<Rightarrow> world \<Rightarrow> world" where
  "run_frame ts w = (if pending w = 0 then w else drawFrame ts (w\<lparr>pending := pending w - 1\<rparr>))"

datatype action = Start | Pause | Jam real real real | Calibrate | Glow | Reset | SafeStart
  | Frame real

fun act :: "world \<Rightarrow> action \<Rightarrow> world" where
  "act w Start = startBtn w"
| "act w Pause = pauseBtn w"
| "act w (Jam r1 r2 r3) = jamBtn r1 r2 r3 w"
| "act w Calibrate = calBtn w"
| "act w Glow = glowBtn w"
| "act w Reset = resetBtn w"
| "act w SafeStart = safeStartBtn w"
| "act w (Frame ts) = run_frame ts w"

definition run :: "world \<Rightarrow> action list \<Rightarrow> world" where
  "run w as = foldl act w as"

text \<open>
  Sample \<open>i\<close> of the trace of \<open>drawFrame\<close> on a canvas of \<open>w\<close> by \<open>h\<close> pixels, with
  \<open>r1\<close> and \<open>r2\<close> the two values of \<open>Math.random()\<close>.
\<close>

definition trace_point :: "scope_vars \<Rightarrow> real \<Rightarrow> real \<Rightarrow> nat \<Rightarrow> real \<Rightarrow> real \<Rightarrow> real \<times> real" where
  "trace_point s w h i r1 r2 =
     (let cx = w / 2; cy = h / 2; A = min w h / 3;
          tt = scope_t s + real i / 1400 * (if jam s then 14 else 8)
      in (cx + A * sin (2 * pi * scope_f1 s * tt + phase s) + (r1 - 1 / 2) * noise s * 4,
          cy + A * sin (2 * pi * scope_f2 s * tt) * cos (phase s) + (r2 - 1 / 2) * noise s * 4))"

section \<open>The storage helpers of the tone generator\<close>

text \<open>
  \<open>localStorage\<close> as the helpers meet it: access may be refused altogether, a write may
  be turned down for lack of room, and otherwise it is a map from keys to strings.
\<close>

datatype storage_error = SecurityError | QuotaExceededError

record local_storage =
  blocked :: bool
  full :: bool
  items :: "string \<rightharpoonup> string"

definition getItem :: "local_storage \<Rightarrow> string \<Rightarrow> storage_error + string option" where
  "getItem st k = (if blocked st then Inl SecurityError else Inr (items st k))"

definition setItem :: "local_storage \<Rightarrow> string \<Rightarrow> string \<Rightarrow> storage_error + local_storage" where
  "setItem st k v =
     (if blocked st then Inl SecurityError
      else if full st then Inl QuotaExceededError
      else Inr (st\<lparr>items := (items st)(k \<mapsto> v)\<rparr>))"

text \<open>\<open>try { body } catch { handler }\<close>\<close>

definition try_catch :: "'e + 'a \<Rightarrow> ('e \<Rightarrow> 'e + 'a) \<Rightarrow> 'e + 'a" where
  "try_catch body handler = (case body of Inl e \<Rightarrow> handler e | Inr v \<Rightarrow> Inr v)"

text \<open>
  \<open>save\<close>, \<open>loadNum\<close> and \<open>loadStr\<close>. The conversions \<open>String(val)\<close> and
  \<open>Number(v)\<close> are parameters. \<open>save\<close> returns the storage it leaves behind.
\<close>

definition save ::
  "('v \<Rightarrow> string) \<Rightarrow> local_storage \<Rightarrow> string \<Rightarrow> 'v \<Rightarrow> storage_error + local_storage" where
  "save to_string st key val =
     try_catch (setItem st (''fieldsig_'' @ key) (to_string val)) (\<lambda>e. Inr st)"

definition loadNum ::
  "(string \<Rightarrow> 'n) \<Rightarrow> local_storage \<Rightarrow> string \<Rightarrow> 'n \<Rightarrow> storage_error + 'n" where
  "loadNum to_number st key fallback =
     try_catch
       (case getItem st (''fieldsig_'' @ key) of
          Inl e \<Rightarrow> Inl e
        | Inr v \<Rightarrow> Inr (case v of None \<Rightarrow> fallback | Some s \<Rightarrow> to_number s))
       (\<lambda>e. Inr fallback)"

definition loadStr :: "local_storage \<Rightarrow> string \<Rightarrow> string \<Rightarrow> storage_error + string" where
  "loadStr st key fallback =
     try_catch
       (case getItem st (''fieldsig_'' @ key) of
          Inl e \<Rightarrow> Inl e
        | Inr v \<Rightarrow> Inr (case v of None \<Rightarrow> fallback | Some s \<Rightarrow> s))
       (\<lambda>e. Inr fallback)"

section \<open>Properties of the signal model\<close>

lemma sin_lower_cubic:
  fixes x :: real
  assumes "0 < x"
  shows "x - x ^ 3 / 6 \<le> sin x"
proof -
  from Maclaurin_sin_expansion3 [of 3 x] assms
  obtain s where s:
    "sin x = (\<Sum>m<3. sin_coeff m * x ^ m) + (sin (s + 1/2 * real 3 * pi) / fact 3) * x ^ 3"
    by auto
  have sum: "(\<Sum>m<3. sin_coeff m * x ^ m) = x"
    by (simp add: sin_coeff_def numeral_3_eq_3)
  have f: "fact 3 = (6::real)"
    by (simp add: numeral_3_eq_3)
  have "- 1 \<le> sin (s + 1/2 * real 3 * pi)"
    by (rule sin_ge_minus_one)
  moreover have "0 \<le> x ^ 3 / 6"
    using assms by simp
  ultimately have "- (x ^ 3 / 6) \<le> sin (s + 1/2 * real 3 * pi) * (x ^ 3 / 6)"
    by (metis mult_right_mono mult_minus_left mult_1)
  with s sum f show ?thesis
    by simp
qed

lemma sin_04_lower: "1 / 10 ^ 9 < 9 / 10 * sin (4 / 10 :: real)"
proof -
  have "(4/10::real) - (4/10) ^ 3 / 6 \<le> sin (4/10)"
    by (rule sin_lower_cubic) simp
  then show ?thesis
    by (simp add: power3_eq_cube)
qed

lemma baseY_Fin:
  "xMax p \<noteq> 0 \<Longrightarrow>
     baseY p (Fin x) (Fin t) =
       Fin (baseAmp p * sin (2 * pi * baseFreq p * (x / xMax p) + basePhase p + 6 / 10 * t))"
  by (simp add: baseY_def)

lemma u1Y_terms:
  "u1Y p (Fin x) (Fin t) =
     js_add (js_add (junctionY p (Fin t)) (Fin (u1Slope p * max 0 (x - splitX p))))
       (Fin (u1Amp p * sin (2 * pi * u1Freq p *
               (max 0 (x - splitX p) / max (1 / 1000000) (xMax p - splitX p))
               + u1Phase p + 7 / 10 * t)))"
proof -
  have "max (1 / 1000000) (xMax p - splitX p) \<noteq> 0"
    by (simp add: max_def)
  then show ?thesis
    by (simp add: u1Y_def js_sub_def Let_def)
qed

lemma u2Y_terms:
  "u2Y p (Fin x) (Fin t) =
     js_add (js_add (junctionY p (Fin t)) (Fin (u2Slope p * max 0 (x - splitX p))))
       (Fin (u2Amp p * sin (2 * pi * u2Freq p *
               (max 0 (x - splitX p) / max (1 / 1000000) (xMax p - splitX p))
               + u2Phase p + 65 / 100 * t)))"
proof -
  have "max (1 / 1000000) (xMax p - splitX p) \<noteq> 0"
    by (simp add: max_def)
  then show ?thesis
    by (simp add: u2Y_def js_sub_def Let_def)
qed

lemma js_add_zero_middle: "js_add (js_add j (Fin 0)) (Fin b) = js_add j (Fin b)"
  by (cases j) simp_all

text \<open>
  At the split point a branch is the junction value plus its own sinusoid at \<open>dx = 0\<close>,
  which is \<open>amplitude * sin(phase + rate * t)\<close> and in general not zero.
\<close>

lemma u1Y_at_split:
  "u1Y p (Fin (splitX p)) (Fin t) =
     js_add (junctionY p (Fin t)) (Fin (u1Amp p * sin (u1Phase p + 7 / 10 * t)))"
  by (simp add: u1Y_terms js_add_zero_middle)

lemma u2Y_at_split:
  "u2Y p (Fin (splitX p)) (Fin t) =
     js_add (junctionY p (Fin t)) (Fin (u2Amp p * sin (u2Phase p + 65 / 100 * t)))"
  by (simp add: u2Y_terms js_add_zero_middle)

text \<open>
  C1. Junction continuity asks that \<open>baseY\<close>, \<open>u1Y\<close> and \<open>u2Y\<close> agree at
  \<open>x = splitX\<close> for every \<open>t\<close>. With the initial parameters (\<open>splitX = 4\<close>,
  \<open>xMax = 10\<close>) and \<open>t = 0\<close> the first branch is the base value plus
  \<open>0.9 * sin 0.4\<close>, which is more than \<open>1e-9\<close>: the two values differ.
\<close>

theorem junction_values_differ_initially:
  "u1Y initial_state (Fin 4) (Fin 0)
      = js_add (baseY initial_state (Fin 4) (Fin 0)) (Fin (9 / 10 * sin (4 / 10)))
   \<and> 1 / 10 ^ 9 < 9 / 10 * sin (4 / 10 :: real)
   \<and> isFinite (baseY initial_state (Fin 4) (Fin 0))
   \<and> u1Y initial_state (Fin 4) (Fin 0) \<noteq> baseY initial_state (Fin 4) (Fin 0)"
proof -
  have sp: "splitX initial_state = 4" and xm: "xMax initial_state \<noteq> 0"
    by (simp_all add: initial_state_def)
  have a: "u1Y initial_state (Fin 4) (Fin 0)
      = js_add (baseY initial_state (Fin 4) (Fin 0)) (Fin (9 / 10 * sin (4 / 10)))"
    using u1Y_at_split [of initial_state 0]
    by (simp add: sp junctionY_def) (simp add: initial_state_def)
  have b: "1 / 10 ^ 9 < 9 / 10 * sin (4 / 10 :: real)"
    by (rule sin_04_lower)
  obtain y where y: "baseY initial_state (Fin 4) (Fin 0) = Fin y"
    using baseY_Fin [OF xm] by blast
  from a b y show ?thesis
    by simp
qed

text \<open>
  C2. Outside its domain a sampler of \<open>render\<close> returns NaN, which is not finite: the
  pre-split sampler for \<open>x > splitX\<close>, the two post-split samplers for \<open>x < splitX\<close>.
  Inside its domain each returns the value of its curve.
\<close>

theorem sampler_outside_domain_is_NaN:
  "(splitX p < x \<longrightarrow> base_sampler p t (Fin x) = NaN)
   \<and> (x < splitX p \<longrightarrow> u1_sampler p t (Fin x) = NaN \<and> u2_sampler p t (Fin x) = NaN)
   \<and> \<not> isFinite NaN
   \<and> (x \<le> splitX p \<longrightarrow> base_sampler p t (Fin x) = baseY p (Fin x) t)
   \<and> (splitX p \<le> x \<longrightarrow> u1_sampler p t (Fin x) = u1Y p (Fin x) t
                          \<and> u2_sampler p t (Fin x) = u2Y p (Fin x) t)"
  by (simp add: base_sampler_def u1_sampler_def u2_sampler_def js_ge_def)

theorem sampler_outside_domain_is_NaN_witness:
  "splitX initial_state < 5 \<and> 3 < splitX initial_state
   \<and> base_sampler initial_state (Fin 0) (Fin 5) = NaN
   \<and> u1_sampler initial_state (Fin 0) (Fin 3) = NaN
   \<and> u2_sampler initial_state (Fin 0) (Fin 3) = NaN
   \<and> base_sampler initial_state (Fin 0) (Fin 3) = baseY initial_state (Fin 3) (Fin 0)
   \<and> u1_sampler initial_state (Fin 0) (Fin 5) = u1Y initial_state (Fin 5) (Fin 0)"
proof -
  have a: "splitX initial_state < 5" and b: "3 < splitX initial_state"
    by (simp_all add: initial_state_def)
  from a b sampler_outside_domain_is_NaN [of initial_state 5 "Fin 0"]
    sampler_outside_domain_is_NaN [of initial_state 3 "Fin 0"]
  show ?thesis
    by simp
qed

text \<open>
  C8. At \<open>x = 0\<close> and \<open>t = 0\<close> the base curve is \<open>baseAmp * sin(basePhase)\<close>, whatever
  the frequency; so it is with frequency \<open>1.2\<close> and phase \<open>\<pi>/3\<close>. In the oscilloscope,
  whose variables start at \<open>f1 = 1.2\<close>, \<open>f2 = 2.3\<close>, \<open>phase = \<pi>/3\<close>, \<open>t = 0\<close> and no
  noise, the first sample of the trace lies \<open>A * sin(phase)\<close> right of the centre
  \<open>w / 2\<close>, with \<open>A = min(w, h) / 3\<close>. Equality is exact here, the numbers being reals.
\<close>

theorem base_sample_at_origin:
  "(xMax p \<noteq> 0 \<longrightarrow> baseY p (Fin 0) (Fin 0) = Fin (baseAmp p * sin (basePhase p)))
   \<and> (scope_t s = 0 \<and> noise s = 0 \<longrightarrow>
        fst (trace_point s w h 0 r1 r2) = w / 2 + min w h / 3 * sin (phase s))"
  by (simp add: baseY_Fin trace_point_def Let_def)

theorem base_sample_at_origin_witness:
  "xMax (initial_state\<lparr>baseFreq := 12 / 10, basePhase := pi / 3\<rparr>) \<noteq> 0
   \<and> baseY (initial_state\<lparr>baseFreq := 12 / 10, basePhase := pi / 3\<rparr>) (Fin 0) (Fin 0)
       = Fin (baseAmp initial_state * sin (pi / 3))
   \<and> scope_f1 initial_vars = 12 / 10 \<and> scope_f2 initial_vars = 23 / 10
   \<and> phase initial_vars = pi / 3 \<and> scope_t initial_vars = 0 \<and> noise initial_vars = 0
   \<and> fst (trace_point initial_vars 800 300 0 (1 / 4) (3 / 4))
       = 800 / 2 + min 800 300 / 3 * sin (pi / 3)"
proof -
  have a: "xMax (initial_state\<lparr>baseFreq := 12 / 10, basePhase := pi / 3\<rparr>) \<noteq> 0"
    by (simp add: initial_state_def)
  have b: "scope_t initial_vars = 0 \<and> noise initial_vars = 0"
    by (simp add: initial_vars_def)
  from a b
    base_sample_at_origin [of "initial_state\<lparr>baseFreq := 12 / 10, basePhase := pi / 3\<rparr>"
      initial_vars 800 300 "1 / 4" "3 / 4"]
  show ?thesis
    by (simp add: initial_vars_def)
qed

section \<open>Properties of the branch functions on doubles\<close>





















































section \<open>Properties of the renderer\<close>

text \<open>With a positive step the loop returns, having run its body over the sample points.\<close>

lemma curve_loop_sample_xs:
  "0 < step \<Longrightarrow>
     curve_loop f X Y step hi x st =
       Some (foldl (\<lambda>st x. curve_body f X Y x st) st (sample_xs step hi x))"
proof (induction step hi x arbitrary: st rule: sample_xs.induct)
  case (1 step hi x)
  show ?case
  proof (cases "x \<le> hi")
    case True
    with "1.prems" have "curve_loop f X Y step hi (x + step) (curve_body f X Y x st) =
        Some (foldl (\<lambda>st x. curve_body f X Y x st) (curve_body f X Y x st)
                (sample_xs step hi (x + step)))"
      by (intro "1.IH") simp_all
    with True "1.prems" show ?thesis
      by (subst curve_loop.simps, subst sample_xs.simps) simp
  next
    case False
    then show ?thesis
      by (subst curve_loop.simps, subst sample_xs.simps) simp
  qed
qed

lemma drawCurve_returns:
  "0 < xMax p \<Longrightarrow>
     drawCurve p X Y f fromX toX =
       Some (strokes f X Y (sample_xs (xMax p / 1000) (min (xMax p) toX) fromX))"
  by (simp add: drawCurve_def strokes_def curve_loop_sample_xs)

text \<open>With a step of zero the loop, once entered, does not return.\<close>

lemma curve_loop_no_result:
  "curve_loop f X Y step hi x st = Some r \<Longrightarrow> step = 0 \<and> x \<le> hi \<longrightarrow> False"
  apply (rule curve_loop.raw_induct
      [where P = "\<lambda>f X Y step hi x st r. step = 0 \<and> x \<le> hi \<longrightarrow> False"
         and xa = "((((((f, X), Y), step), hi), x), st)" and y = r, unfolded prod.case])
   apply (auto split: if_split_asm)
  done

lemma curve_loop_stuck: "x \<le> hi \<Longrightarrow> curve_loop f X Y 0 hi x st = None"
  using curve_loop_no_result [of f X Y 0 hi x st]
  by (cases "curve_loop f X Y 0 hi x st") auto

lemma drawCurve_hangs:
  "xMax p = 0 \<Longrightarrow> fromX \<le> min 0 toX \<Longrightarrow> drawCurve p X Y f fromX toX = None"
  by (simp add: drawCurve_def curve_loop_stuck)

text \<open>The path so far is a prefix the loop body only appends to.\<close>

lemma curve_body_acc:
  "curve_body f X Y x \<lparr>penDown = b, path = acc\<rparr> =
     \<lparr>penDown = penDown (curve_body f X Y x \<lparr>penDown = b, path = []\<rparr>),
      path = acc @ path (curve_body f X Y x \<lparr>penDown = b, path = []\<rparr>)\<rparr>"
  by (simp add: curve_body_def Let_def)

lemma foldl_body_acc:
  "foldl (\<lambda>st x. curve_body f X Y x st) \<lparr>penDown = b, path = acc\<rparr> xs =
     \<lparr>penDown = penDown (foldl (\<lambda>st x. curve_body f X Y x st) \<lparr>penDown = b, path = []\<rparr> xs),
      path = acc @ path (foldl (\<lambda>st x. curve_body f X Y x st) \<lparr>penDown = b, path = []\<rparr> xs)\<rparr>"
proof (induction xs arbitrary: b acc)
  case Nil
  show ?case by simp
next
  case (Cons x xs)
  obtain b' new where n: "curve_body f X Y x \<lparr>penDown = b, path = []\<rparr> = \<lparr>penDown = b', path = new\<rparr>"
    by (cases "curve_body f X Y x \<lparr>penDown = b, path = []\<rparr>") simp
  then have s: "curve_body f X Y x \<lparr>penDown = b, path = acc\<rparr> = \<lparr>penDown = b', path = acc @ new\<rparr>"
    by (subst curve_body_acc) simp
  show ?case
    by (simp add: n s) (subst Cons.IH, subst (2 3) Cons.IH, simp)
qed

lemma strokes_gap:
  assumes "\<not> isFinite (f (Fin g))"
  shows "strokes f X Y (pre @ g # post) = strokes f X Y pre @ strokes f X Y post"
proof -
  obtain b acc where st:
    "foldl (\<lambda>st x. curve_body f X Y x st) \<lparr>penDown = False, path = []\<rparr> pre
       = \<lparr>penDown = b, path = acc\<rparr>"
    by (cases "foldl (\<lambda>st x. curve_body f X Y x st) \<lparr>penDown = False, path = []\<rparr> pre") simp
  from assms have "curve_body f X Y g \<lparr>penDown = b, path = acc\<rparr> = \<lparr>penDown = False, path = acc\<rparr>"
    by (simp add: curve_body_def)
  then show ?thesis
    by (simp add: strokes_def st) (subst foldl_body_acc, simp)
qed

lemma strokes_first:
  assumes "isFinite (f (Fin b))"
  shows "\<exists>rest. strokes f X Y (b # bs) = MoveTo (X (Fin b)) (Y (f (Fin b))) # rest"
proof -
  from assms have "curve_body f X Y b \<lparr>penDown = False, path = []\<rparr>
      = \<lparr>penDown = True, path = [MoveTo (X (Fin b)) (Y (f (Fin b)))]\<rparr>"
    by (simp add: curve_body_def)
  then show ?thesis
    by (simp add: strokes_def) (subst foldl_body_acc, simp)
qed

text \<open>
  C3. Let the sample points of a \<open>drawCurve\<close> call hold a point \<open>g\<close> whose sample is
  not finite, followed by a point \<open>b\<close> whose sample is finite. Then the call returns the
  path of the points before \<open>g\<close> followed by the path that the points from \<open>b\<close> on give
  by themselves, and that second path starts with a \<open>moveTo\<close> to \<open>b\<close>: no \<open>lineTo\<close>
  joins a point before the gap to a point after it. The domain extent is positive, so the
  step is and the loop ends.
\<close>

theorem drawCurve_lifts_pen_at_gap:
  assumes "0 < xMax p"
    and "sample_xs (xMax p / 1000) (min (xMax p) toX) fromX = pre @ g # b # post"
    and "\<not> isFinite (f (Fin g))"
    and "isFinite (f (Fin b))"
  shows "drawCurve p X Y f fromX toX = Some (strokes f X Y pre @ strokes f X Y (b # post))
    \<and> (\<exists>rest. strokes f X Y (b # post) = MoveTo (X (Fin b)) (Y (f (Fin b))) # rest)"
  using assms drawCurve_returns [of p X Y f fromX toX] strokes_gap [of f g X Y pre "b # post"]
    strokes_first [of f b X Y post]
  by simp

theorem drawCurve_lifts_pen_at_gap_witness:
  "0 < xMax initial_state
   \<and> sample_xs (xMax initial_state / 1000) (min (xMax initial_state) (403 / 100)) 4
       = [4] @ (401 / 100) # (402 / 100) # [403 / 100]
   \<and> \<not> isFinite ((\<lambda>x. if x = Fin (401 / 100) then NaN else Fin 1) (Fin (401 / 100)))
   \<and> isFinite ((\<lambda>x. if x = Fin (401 / 100) then NaN else Fin 1) (Fin (402 / 100)))
   \<and> drawCurve initial_state (\<lambda>x. x) (\<lambda>y. y) (\<lambda>x. if x = Fin (401 / 100) then NaN else Fin 1)
        4 (403 / 100)
       = Some [MoveTo (Fin 4) (Fin 1), MoveTo (Fin (402 / 100)) (Fin 1),
               LineTo (Fin (403 / 100)) (Fin 1)]"
proof -
  have a: "0 < xMax initial_state"
    by (simp add: initial_state_def)
  have b: "sample_xs (xMax initial_state / 1000) (min (xMax initial_state) (403 / 100)) 4
       = [4] @ (401 / 100) # (402 / 100) # [403 / 100]"
    by (simp add: initial_state_def)
  have c: "\<not> isFinite ((\<lambda>x. if x = Fin (401 / 100) then NaN else Fin 1) (Fin (401 / 100)))"
    by simp
  have d: "isFinite ((\<lambda>x. if x = Fin (401 / 100) then NaN else Fin 1) (Fin (402 / 100)))"
    by simp
  from drawCurve_lifts_pen_at_gap [OF a b c d, of "\<lambda>x. x" "\<lambda>y. y"] a b show ?thesis
    by (simp add: strokes_def curve_body_def Let_def)
qed

lemma frame_setup_eq:
  "frame_setup cv =
     cv\<lparr>width := \<lfloor>real_of_int (max 1 (clientWidth cv))
                    * (if devicePixelRatio cv = 0 then 1 else devicePixelRatio cv)\<rfloor>,
        height := \<lfloor>real_of_int (max 1 (clientHeight cv))
                    * (if devicePixelRatio cv = 0 then 1 else devicePixelRatio cv)\<rfloor>,
        transform := ((if devicePixelRatio cv = 0 then 1 else devicePixelRatio cv), 0, 0,
                      (if devicePixelRatio cv = 0 then 1 else devicePixelRatio cv), 0, 0)\<rparr>"
  by (simp add: frame_setup_def Let_def ctx_scale_def ctx_setTransform_def)

lemma frame_setup_twice: "frame_setup (frame_setup cv) = frame_setup cv"
  by (subst (1 3) frame_setup_eq) (simp add: frame_setup_eq)

lemma frame_setup_funpow: "(frame_setup ^^ Suc n) cv = frame_setup cv"
  by (induction n) (simp_all add: frame_setup_twice)

text \<open>Without the reset, scaling again multiplies the matrix once more.\<close>

lemma ctx_scale_compounds:
  "transform (ctx_scale s s (ctx_scale s s (ctx_setTransform 1 0 0 1 0 0 cv)))
     = (s * s, 0, 0, s * s, 0, 0)"
  by (simp add: ctx_scale_def ctx_setTransform_def)

text \<open>
  C4. The start of \<open>render\<close>, up to \<open>ctx.scale(dpr, dpr)\<close>, run again on the canvas it
  has left, with the CSS size and the device pixel ratio as they were, changes nothing;
  run \<open>n + 1\<close> times it leaves what one run leaves. The transform after it is the scaling
  by \<open>dpr\<close> alone, whatever the transform was before.
\<close>

theorem frame_setup_idempotent:
  "frame_setup (frame_setup cv) = frame_setup cv
   \<and> (frame_setup ^^ Suc n) cv = frame_setup cv
   \<and> transform (frame_setup cv) =
       ((if devicePixelRatio cv = 0 then 1 else devicePixelRatio cv), 0, 0,
        (if devicePixelRatio cv = 0 then 1 else devicePixelRatio cv), 0, 0)"
  using frame_setup_twice [of cv] frame_setup_funpow [of n cv]
  by (simp add: frame_setup_eq)

theorem frame_setup_idempotent_witness:
  "transform (frame_setup \<lparr>clientWidth = 800, clientHeight = 420, devicePixelRatio = 2,
       width = 300, height = 150, transform = (2, 0, 0, 2, 0, 0)\<rparr>) = (2, 0, 0, 2, 0, 0)
   \<and> (frame_setup ^^ Suc 2) \<lparr>clientWidth = 800, clientHeight = 420, devicePixelRatio = 2,
       width = 300, height = 150, transform = (2, 0, 0, 2, 0, 0)\<rparr>
     = \<lparr>clientWidth = 800, clientHeight = 420, devicePixelRatio = 2,
       width = 1600, height = 840, transform = (2, 0, 0, 2, 0, 0)\<rparr>"
  using frame_setup_idempotent [of "\<lparr>clientWidth = 800, clientHeight = 420,
       devicePixelRatio = 2, width = 300, height = 150, transform = (2, 0, 0, 2, 0, 0)\<rparr>" 2]
  by (simp add: frame_setup_eq)

section \<open>Properties of the oscilloscope\<close>

text \<open>
  C5. At most one callback of \<open>drawFrame\<close> should be pending at any time. Start, pause
  and start again, with no frame run in between, leaves two pending: the second start
  finds \<open>running\<close> false and requests a frame while the first request is still held.
  Safe start after start does the same. Both callbacks then run and request again on
  every frame, so two stay pending and \<open>t\<close> moves by \<open>2 * dt\<close> per frame.
\<close>

theorem start_pause_start_two_pending:
  "pending (run initial_world [Start, Pause, Start]) = 2
   \<and> running (vars (run initial_world [Start, Pause, Start]))
   \<and> pending (run initial_world [Start, SafeStart]) = 2
   \<and> pending (run initial_world [Start, Pause, Start, Frame 16, Frame 16]) = 2
   \<and> scope_t (vars (run initial_world [Start, Pause, Start, Frame 16, Frame 16]))
       = 2 * scope_dt initial_vars"
  by (simp add: run_def pauseBtn_def startBtn_def safeStartBtn_def bindControls_def
      log_line_def requestAnimationFrame_def run_frame_def drawFrame_def Let_def
      initial_world_def initial_vars_def)

text \<open>
  C6. Pause and start change no variable but \<open>running\<close> (pause leaves the pending
  callbacks as they are, start adds one when it was not running; each logs a line). So
  after pause and start, and also with a frame callback run while paused, \<open>t\<close> is what
  it was. Reset sets \<open>t\<close> to zero, and jam, calibrate, glow and safe start leave it.
  In the canvas component Play/Pause flips \<open>playing\<close> alone, twice gives the state back,
  a tick while paused leaves \<open>time\<close>, and Reset sets \<open>time\<close> to zero.
\<close>

theorem pause_start_keep_time:
  "vars (pauseBtn w) = (vars w)\<lparr>running := False\<rparr>
   \<and> pending (pauseBtn w) = pending w
   \<and> vars (startBtn w) = (vars w)\<lparr>running := True\<rparr>
   \<and> vars (startBtn (pauseBtn w)) = (vars w)\<lparr>running := True\<rparr>
   \<and> scope_t (vars (startBtn (pauseBtn w))) = scope_t (vars w)
   \<and> scope_t (vars (startBtn (run_frame ts (pauseBtn w)))) = scope_t (vars w)
   \<and> scope_t (vars (resetBtn w)) = 0
   \<and> scope_t (vars (jamBtn r1 r2 r3 w)) = scope_t (vars w)
   \<and> scope_t (vars (calBtn w)) = scope_t (vars w)
   \<and> scope_t (vars (glowBtn w)) = scope_t (vars w)
   \<and> scope_t (vars (safeStartBtn w)) = scope_t (vars w)
   \<and> onPlayPause p = p\<lparr>playing := \<not> playing p\<rparr>
   \<and> onPlayPause (onPlayPause p) = p
   \<and> time (tick_time now prev (p\<lparr>playing := False\<rparr>)) = time p
   \<and> time (onResetTime p) = 0"
  by (simp add: pauseBtn_def startBtn_def resetBtn_def jamBtn_def calBtn_def glowBtn_def
      safeStartBtn_def bindControls_def log_line_def requestAnimationFrame_def Let_def
      run_frame_def drawFrame_def onPlayPause_def onResetTime_def tick_time_def)

theorem pause_start_keep_time_witness:
  "scope_t (vars (run initial_world [Start, Frame 16])) = 16 / 1000
   \<and> scope_t (vars (startBtn (pauseBtn (run initial_world [Start, Frame 16])))) = 16 / 1000
   \<and> running (vars (startBtn (pauseBtn (run initial_world [Start, Frame 16]))))
   \<and> scope_t (vars (resetBtn (run initial_world [Start, Frame 16]))) = 0"
  using pause_start_keep_time [of "run initial_world [Start, Frame 16]"]
  by (simp add: run_def startBtn_def log_line_def requestAnimationFrame_def run_frame_def
      drawFrame_def Let_def initial_world_def initial_vars_def)

section \<open>Properties of the storage helpers\<close>

text \<open>
  C9. \<open>save\<close>, \<open>loadNum\<close> and \<open>loadStr\<close> never hand an error on. When \<open>setItem\<close>
  throws, \<open>save\<close> leaves the storage as it was; when \<open>getItem\<close> throws, \<open>loadNum\<close>
  and \<open>loadStr\<close> return the fallback they were given.
\<close>

theorem storage_errors_swallowed:
  "(\<exists>st'. save to_string st k v = Inr st')
   \<and> ((\<exists>e. setItem st (''fieldsig_'' @ k) (to_string v) = Inl e) \<longrightarrow>
        save to_string st k v = Inr st)
   \<and> (\<exists>n. loadNum to_number st k fb = Inr n)
   \<and> ((\<exists>e. getItem st (''fieldsig_'' @ k) = Inl e) \<longrightarrow> loadNum to_number st k fb = Inr fb)
   \<and> (\<exists>s. loadStr st k fs = Inr s)
   \<and> ((\<exists>e. getItem st (''fieldsig_'' @ k) = Inl e) \<longrightarrow> loadStr st k fs = Inr fs)"
  by (auto simp: save_def loadNum_def loadStr_def try_catch_def split: sum.splits)

theorem storage_errors_swallowed_witness:
  "setItem \<lparr>blocked = True, full = False, items = Map.empty\<rparr> (''fieldsig_'' @ ''baseHz'') ''174''
     = Inl SecurityError
   \<and> getItem \<lparr>blocked = True, full = False, items = Map.empty\<rparr> (''fieldsig_'' @ ''baseHz'')
     = Inl SecurityError
   \<and> save (\<lambda>s. s) \<lparr>blocked = True, full = False, items = Map.empty\<rparr> ''baseHz'' ''174''
     = Inr \<lparr>blocked = True, full = False, items = Map.empty\<rparr>
   \<and> loadNum (\<lambda>s. 0) \<lparr>blocked = True, full = False, items = Map.empty\<rparr> ''baseHz'' (174::int)
     = Inr 174
   \<and> loadStr \<lparr>blocked = True, full = False, items = Map.empty\<rparr> ''baseHz'' ''sine''
     = Inr ''sine''"
proof -
  have a: "setItem \<lparr>blocked = True, full = False, items = Map.empty\<rparr>
      (''fieldsig_'' @ ''baseHz'') ((\<lambda>s. s) ''174'') = Inl SecurityError"
    by (simp add: setItem_def)
  have b: "getItem \<lparr>blocked = True, full = False, items = Map.empty\<rparr>
      (''fieldsig_'' @ ''baseHz'') = Inl SecurityError"
    by (simp add: getItem_def)
  from a b
    storage_errors_swallowed [of "\<lambda>s. s" "\<lparr>blocked = True, full = False, items = Map.empty\<rparr>"
      "''baseHz''" "''174''" "\<lambda>s. 0" "174::int" "''sine''"]
  show ?thesis
    by auto
qed

end
